theory Spec2Isabelle
  imports Complex_Main
begin

section \<open>JavaScript numbers\<close>

text \<open>
  A number of the language is an IEEE 754 double: \<open>NaN\<close>, one of the two infinities, or a
  finite value, kept as the real number it denotes. The two zeros are not told apart
  (no operation of the queue can tell them apart).
\<close>

datatype jsnum = NaN | Fin real | PosInf | NegInf

text \<open>
  Rounding to the nearest integer, ties to the even one: what the arithmetic does to the
  significand of a result.
\<close>

definition round_even :: "real \<Rightarrow> int" where
  "round_even y =
     (let f = \<lfloor>y\<rfloor>; d = y - of_int f
      in if d < 1 / 2 then f else if 1 / 2 < d then f + 1 else if even f then f else f + 1)"

text \<open>
  The exponent of the binade of \<open>x\<close>: the \<open>E\<close> with \<open>2^E \<le> |x| < 2^(E+1)\<close>, but never below
  \<open>-1022\<close>, where the subnormal numbers begin. The doubles of that binade are the
  multiples of \<open>2^(E-52)\<close>.
\<close>

definition binade :: "real \<Rightarrow> int" where
  "binade x = max \<lfloor>log 2 \<bar>x\<bar>\<rfloor> (- 1022)"

text \<open>
  \<open>fl x\<close> is \<open>x\<close> rounded to 53 significant bits, to nearest, ties to even, with the
  exponent unbounded above; \<open>round_double\<close> is the result of an operation whose exact
  value is \<open>x\<close>: a magnitude that rounds to \<open>2^1024\<close> or more overflows to an infinity.
\<close>

definition fl :: "real \<Rightarrow> real" where
  "fl x =
     (if x = 0 then 0
      else of_int (round_even (x / 2 powi (binade x - 52))) * 2 powi (binade x - 52))"

definition overflow_threshold :: real where
  "overflow_threshold = 2 ^ 1024"

definition round_double :: "real \<Rightarrow> jsnum" where
  "round_double x =
     (if overflow_threshold \<le> fl x then PosInf
      else if fl x \<le> - overflow_threshold then NegInf
      else Fin (fl x))"

text \<open>\<^verbatim>\<open>a * b\<close> and \<open>a + b\<close> on numbers.\<close>

fun num_mul :: "jsnum \<Rightarrow> jsnum \<Rightarrow> jsnum" where
  "num_mul NaN b = NaN"
| "num_mul a NaN = NaN"
| "num_mul (Fin x) (Fin y) = round_double (x * y)"
| "num_mul (Fin x) PosInf = (if x = 0 then NaN else if 0 < x then PosInf else NegInf)"
| "num_mul (Fin x) NegInf = (if x = 0 then NaN else if 0 < x then NegInf else PosInf)"
| "num_mul PosInf (Fin y) = (if y = 0 then NaN else if 0 < y then PosInf else NegInf)"
| "num_mul NegInf (Fin y) = (if y = 0 then NaN else if 0 < y then NegInf else PosInf)"
| "num_mul PosInf PosInf = PosInf"
| "num_mul PosInf NegInf = NegInf"
| "num_mul NegInf PosInf = NegInf"
| "num_mul NegInf NegInf = PosInf"

fun num_add :: "jsnum \<Rightarrow> jsnum \<Rightarrow> jsnum" where
  "num_add NaN b = NaN"
| "num_add a NaN = NaN"
| "num_add (Fin x) (Fin y) = round_double (x + y)"
| "num_add PosInf NegInf = NaN"
| "num_add NegInf PosInf = NaN"
| "num_add PosInf b = PosInf"
| "num_add NegInf b = NegInf"
| "num_add a PosInf = PosInf"
| "num_add a NegInf = NegInf"

text \<open>
  \<^verbatim>\<open>Math.pow(2, n)\<close> for a loop counter \<open>n\<close>: the power of two, which is a double up to
  \<open>2^1023\<close> and \<open>Infinity\<close> from \<open>2^1024\<close> on.
\<close>

definition Math_pow_2 :: "nat \<Rightarrow> jsnum" where
  "Math_pow_2 n = round_double (2 ^ n)"

text \<open>\<^verbatim>\<open>a >= b\<close> on numbers: false as soon as one side is \<open>NaN\<close>.\<close>

fun num_ge :: "jsnum \<Rightarrow> jsnum \<Rightarrow> bool" where
  "num_ge NaN b = False"
| "num_ge a NaN = False"
| "num_ge PosInf b = True"
| "num_ge a NegInf = True"
| "num_ge NegInf b = False"
| "num_ge a PosInf = False"
| "num_ge (Fin x) (Fin y) = (y \<le> x)"

section \<open>JavaScript values\<close>

text \<open>
  The retry queue inspects whatever value a task throws, so thrown values are modelled
  as values of the language: the seven kinds of primitives, and objects. An object is a
  plain object, an object without a prototype (\<^verbatim>\<open>Object.create(null)\<close>), an instance of
  \<open>Error\<close> (or of a subclass) or a function. Its association list holds the properties
  a read of the keys \<open>status\<close>, \<open>code\<close>, \<open>name\<close> and \<open>message\<close> finds on it, own or
  inherited, and its own \<open>toString\<close> and \<open>valueOf\<close> if it has them; the first entry for
  a key wins. Getters and proxies are left out.
\<close>

datatype objkind = PlainObject | NullPrototypeObject | ErrorObject | FunctionObject

datatype jsval =
    JUndefined
  | JNull
  | JBool bool
  | JNum jsnum
  | JStr string
  | JBigInt int
  | JSymbol string
  | JObj objkind "(string \<times> jsval) list"

text \<open>\<^verbatim>\<open>typeof v\<close>.\<close>

fun js_typeof :: "jsval \<Rightarrow> string" where
  "js_typeof JUndefined = ''undefined''"
| "js_typeof JNull = ''object''"
| "js_typeof (JBool b) = ''boolean''"
| "js_typeof (JNum n) = ''number''"
| "js_typeof (JStr s) = ''string''"
| "js_typeof (JBigInt i) = ''bigint''"
| "js_typeof (JSymbol d) = ''symbol''"
| "js_typeof (JObj FunctionObject ps) = ''function''"
| "js_typeof (JObj k ps) = ''object''"

text \<open>\<^verbatim>\<open>v instanceof Error\<close>.\<close>

fun instanceof_Error :: "jsval \<Rightarrow> bool" where
  "instanceof_Error (JObj ErrorObject ps) = True"
| "instanceof_Error v = False"

text \<open>
  The language's own notion of an object (functions included), as opposed to the
  primitives.
\<close>

fun is_Object :: "jsval \<Rightarrow> bool" where
  "is_Object (JObj k ps) = True"
| "is_Object v = False"

text \<open>
  The property read \<^verbatim>\<open>v.key\<close>, for a value on which the read does not throw. A read
  on a primitive goes to the wrapper's prototype, which has none of the keys read by
  the queue, so it yields \<open>undefined\<close>; so does a missing property of an object. The
  queue never reads a property of \<open>null\<close> or \<open>undefined\<close> (it guards, or uses \<^verbatim>\<open>?.\<close>).
\<close>

fun js_get :: "jsval \<Rightarrow> string \<Rightarrow> jsval" where
  "js_get (JObj k ps) key = (case map_of ps key of Some v \<Rightarrow> v | None \<Rightarrow> JUndefined)"
| "js_get v key = JUndefined"

text \<open>
  Conversions whose result depends on number parsing, number printing or on the methods
  an object carries (\<open>valueOf\<close>, \<open>toString\<close>) belong to the runtime and are taken as
  parameters. The conversion of an object either returns or throws a value (\<open>Inl\<close>): a
  \<open>TypeError\<close> when the object has no callable conversion method, or whatever its own
  method throws. Converting a symbol to a number always throws; \<open>SymbolToNumber\<close> is the
  \<open>TypeError\<close> thrown.
\<close>

record runtime =
  StringToNumber :: "string \<Rightarrow> jsnum"
  NumberToString :: "real \<Rightarrow> string"
  BigIntToString :: "int \<Rightarrow> string"
  SymbolToNumber :: "string \<Rightarrow> jsval"
  ObjectToNumber :: "jsval \<Rightarrow> jsval + jsnum"
  ObjectToString :: "jsval \<Rightarrow> jsval + string"

text \<open>\<^verbatim>\<open>String(v)\<close>: the string, or the value thrown by the conversion.\<close>

fun js_String :: "runtime \<Rightarrow> jsval \<Rightarrow> jsval + string" where
  "js_String rt JUndefined = Inr ''undefined''"
| "js_String rt JNull = Inr ''null''"
| "js_String rt (JBool b) = Inr (if b then ''true'' else ''false'')"
| "js_String rt (JNum NaN) = Inr ''NaN''"
| "js_String rt (JNum PosInf) = Inr ''Infinity''"
| "js_String rt (JNum NegInf) = Inr ''-Infinity''"
| "js_String rt (JNum (Fin x)) = Inr (NumberToString rt x)"
| "js_String rt (JStr s) = Inr s"
| "js_String rt (JBigInt i) = Inr (BigIntToString rt i)"
| "js_String rt (JSymbol d) = Inr (''Symbol('' @ d @ '')'')"
| "js_String rt (JObj k ps) = ObjectToString rt (JObj k ps)"

text \<open>
  The numeric value that \<^verbatim>\<open>>=\<close> compares when the other operand is a number, or the
  value thrown on the way to it. A BigInt is compared by its mathematical value.
\<close>

fun ToNumeric :: "runtime \<Rightarrow> jsval \<Rightarrow> jsval + jsnum" where
  "ToNumeric rt JUndefined = Inr NaN"
| "ToNumeric rt JNull = Inr (Fin 0)"
| "ToNumeric rt (JBool b) = Inr (Fin (if b then 1 else 0))"
| "ToNumeric rt (JNum n) = Inr n"
| "ToNumeric rt (JStr s) = Inr (StringToNumber rt s)"
| "ToNumeric rt (JBigInt i) = Inr (Fin (of_int i))"
| "ToNumeric rt (JSymbol d) = Inl (SymbolToNumber rt d)"
| "ToNumeric rt (JObj k ps) = ObjectToNumber rt (JObj k ps)"

text \<open>\<^verbatim>\<open>v >= n\<close> for a number literal \<open>n\<close> on the right: a boolean, or the value thrown.\<close>

definition js_ge :: "runtime \<Rightarrow> jsval \<Rightarrow> real \<Rightarrow> jsval + bool" where
  "js_ge rt v n =
     (case ToNumeric rt v of Inl t \<Rightarrow> Inl t | Inr x \<Rightarrow> Inr (num_ge x (Fin n)))"

text \<open>
  \<^verbatim>\<open>new Error(msg)\<close>: an \<open>Error\<close> instance with the given message and the inherited
  name. The engine-specific \<open>stack\<close> string is left out.
\<close>

definition new_Error :: "string \<Rightarrow> jsval" where
  "new_Error msg = JObj ErrorObject [(''message'', JStr msg), (''name'', JStr ''Error'')]"

section \<open>The retry queue\<close>

text \<open>
  The options handed to the \<open>p-queue\<close> instance and the two fields of the queue.
\<close>

record pqueue_options =
  concurrency :: nat
  interval :: nat
  intervalCap :: nat

record retry_queue =
  queue :: pqueue_options
  maxRetries :: nat
  baseDelay :: jsnum

text \<open>
  The constructor declares no parameter: whatever arguments a caller passes are
  ignored. (The call of \<open>debug\<close> only logs.)
\<close>

definition RetryQueue_constructor :: "jsval list \<Rightarrow> retry_queue" where
  "RetryQueue_constructor args =
     \<lparr> queue = \<lparr> concurrency = 20, interval = 1000, intervalCap = 20 \<rparr>,
       maxRetries = 3,
       baseDelay = Fin 1000 \<rparr>"

text \<open>
  \<open>shouldRetry\<close>: true, false, or the value thrown by the comparison \<^verbatim>\<open>err.status >= 500\<close>
  (the only step that can throw). A strict comparison \<^verbatim>\<open>===\<close> with a number or string
  literal holds exactly when the value is that number or that string, which is equality
  of the model's values.
\<close>

definition shouldRetry :: "runtime \<Rightarrow> jsval \<Rightarrow> jsval + bool" where
  "shouldRetry rt error =
     (if js_typeof error = ''object'' \<and> error \<noteq> JNull then
        (let err = error in
         if js_get err ''status'' = JNum (Fin 429) then Inr True
         else case js_ge rt (js_get err ''status'') 500 of
           Inl t \<Rightarrow> Inl t
         | Inr ge \<Rightarrow>
             if ge then Inr True
             else if js_get err ''code'' = JStr ''ECONNRESET'' then Inr True
             else if js_get err ''code'' = JStr ''ECONNREFUSED'' then Inr True
             else if js_get err ''code'' = JStr ''ETIMEDOUT'' then Inr True
             else if js_get err ''name'' = JStr ''AbortError'' then Inr True
             else if js_get err ''name'' = JStr ''TimeoutError'' then Inr True
             else Inr False)
      else Inr False)"

text \<open>
  \<open>calculateDelay\<close>, with the outcome \<open>r\<close> of its call of \<^verbatim>\<open>Math.random()\<close> (a double in
  \<open>[0, 1)\<close>) as an argument. The attempt number is the loop counter, a natural number;
  \<^verbatim>\<open>0.1\<close> is the double nearest to one tenth; the product is evaluated from left to
  right.
\<close>

definition calculateDelay :: "retry_queue \<Rightarrow> real \<Rightarrow> nat \<Rightarrow> jsnum" where
  "calculateDelay q r attempt =
     (let exponentialDelay = num_mul (baseDelay q) (Math_pow_2 attempt);
          jitter = num_mul (num_mul (Fin r) (round_double (1 / 10))) exponentialDelay
      in num_add exponentialDelay jitter)"

text \<open>
  A task is an asynchronous function without arguments. One call of it, in a state
  \<open>s\<close> of whatever the task closes over, settles with a returned or a thrown value and
  leaves a new state. (A call that never settles is not modelled.)
\<close>

datatype settled = Returned jsval | Threw jsval

type_synonym 's task = "'s \<Rightarrow> settled \<times> 's"

text \<open>What the promise of \<open>executeWithRetry\<close> settles with.\<close>

datatype outcome = Resolved jsval | Rejected jsval

text \<open>
  What the loop does to the outside, in order: a call of the task, or a call of
  \<open>sleep\<close> with its number of milliseconds.
\<close>

datatype event = Call | Sleep jsnum

text \<open>
  The first statement of the catch block:
  \<^verbatim>\<open>lastError = error instanceof Error ? error : new Error(String(error))\<close>. It yields the
  new value of \<open>lastError\<close>, or throws what \<^verbatim>\<open>String(error)\<close> throws.
\<close>

definition lastError_value :: "runtime \<Rightarrow> jsval \<Rightarrow> jsval + jsval" where
  "lastError_value rt error =
     (if instanceof_Error error then Inr error
      else case js_String rt error of Inl t \<Rightarrow> Inl t | Inr msg \<Rightarrow> Inr (new_Error msg))"

text \<open>
  The catch block of \<open>executeWithRetry\<close> for the value \<open>error\<close> caught in attempt
  \<open>attempt\<close>: it either throws (out of the function, which rejects the promise) or goes on
  to sleep for a delay, with a new \<open>lastError\<close>. \<open>r\<close> is what \<^verbatim>\<open>Math.random()\<close> returns if
  it is called. The calls of \<open>debug\<close> only log; their property reads do not throw.
\<close>

datatype caught = Rethrow jsval | Backoff jsval jsnum

definition catch_block :: "runtime \<Rightarrow> retry_queue \<Rightarrow> real \<Rightarrow> nat \<Rightarrow> jsval \<Rightarrow> caught" where
  "catch_block rt q r attempt error =
     (case lastError_value rt error of
        Inl t \<Rightarrow> Rethrow t
      | Inr lastError \<Rightarrow>
          if attempt = maxRetries q then Rethrow lastError
          else case shouldRetry rt error of
            Inl t \<Rightarrow> Rethrow t
          | Inr retry \<Rightarrow>
              if retry then Backoff lastError (calculateDelay q r attempt)
              else Rethrow lastError)"

text \<open>
  The loop of \<open>executeWithRetry\<close>, from the test \<^verbatim>\<open>attempt <= this.maxRetries\<close> on.
  \<open>rnd k\<close> is what \<^verbatim>\<open>Math.random()\<close> returns when called during attempt \<open>k\<close>; \<open>tr\<close> is
  the list of events so far. The last branch is the \<^verbatim>\<open>throw lastError\<close> after the loop.
\<close>

function retry_loop ::
  "runtime \<Rightarrow> retry_queue \<Rightarrow> (nat \<Rightarrow> real) \<Rightarrow> 's task \<Rightarrow> nat \<Rightarrow> jsval \<Rightarrow> 's \<Rightarrow> event list
     \<Rightarrow> outcome \<times> 's \<times> event list" where
  "retry_loop rt q rnd fn attempt lastError s tr =
     (if attempt \<le> maxRetries q then
        (case fn s of
           (Returned v, s') \<Rightarrow> (Resolved v, s', tr @ [Call])
         | (Threw error, s') \<Rightarrow>
             (case catch_block rt q (rnd attempt) attempt error of
                Rethrow t \<Rightarrow> (Rejected t, s', tr @ [Call])
              | Backoff lastError' delay \<Rightarrow>
                  retry_loop rt q rnd fn (attempt + 1) lastError' s' (tr @ [Call, Sleep delay])))
      else (Rejected lastError, s, tr))"
  by pat_completeness auto
termination
  by (relation "measure (\<lambda>(rt, q, rnd, fn, attempt, lastError, s, tr). Suc (maxRetries q) - attempt)")
     auto

definition executeWithRetry ::
  "runtime \<Rightarrow> retry_queue \<Rightarrow> (nat \<Rightarrow> real) \<Rightarrow> 's task \<Rightarrow> 's \<Rightarrow> outcome \<times> 's \<times> event list" where
  "executeWithRetry rt q rnd fn s = retry_loop rt q rnd fn 0 JNull s []"

text \<open>
  Modelled from the spec: \<open>PQueue.add\<close> of the \<open>p-queue\<close> package, which is not among
  the sources. "Returns a future that resolves with the task's success value or rejects
  with its final (post-retry) error": the function handed to it is run once and its
  outcome is the outcome of the promise. When it is run (admission) is not modelled.
\<close>

definition PQueue_add :: "'r \<Rightarrow> 'r" where
  "PQueue_add run = run"

definition add ::
  "runtime \<Rightarrow> retry_queue \<Rightarrow> (nat \<Rightarrow> real) \<Rightarrow> 's task \<Rightarrow> 's \<Rightarrow> outcome \<times> 's \<times> event list" where
  "add rt q rnd fn s = PQueue_add (executeWithRetry rt q rnd fn s)"

section \<open>Observing a run\<close>


definition state_of :: "outcome \<times> 's \<times> event list \<Rightarrow> 's" where
  "state_of run = fst (snd run)"

definition trace_of :: "outcome \<times> 's \<times> event list \<Rightarrow> event list" where
  "trace_of run = snd (snd run)"

text \<open>How often the task was called, and the delays slept, in order.\<close>

fun calls :: "event list \<Rightarrow> nat" where
  "calls [] = 0"
| "calls (Call # tr) = Suc (calls tr)"
| "calls (Sleep d # tr) = calls tr"

fun sleeps :: "event list \<Rightarrow> jsnum list" where
  "sleeps [] = []"
| "sleeps (Call # tr) = sleeps tr"
| "sleeps (Sleep d # tr) = d # sleeps tr"

text \<open>
  The state of the task after \<open>k\<close> calls that started in state \<open>s\<close>, and what call
  number \<open>k\<close> (counted from 0) settles with.
\<close>

fun state_after :: "'s task \<Rightarrow> 's \<Rightarrow> nat \<Rightarrow> 's" where
  "state_after fn s 0 = s"
| "state_after fn s (Suc k) = state_after fn (snd (fn s)) k"

definition attempt_result :: "'s task \<Rightarrow> 's \<Rightarrow> nat \<Rightarrow> settled" where
  "attempt_result fn s k = fst (fn (state_after fn s k))"


subsection \<open>Tasks and values for the closed examples\<close>

text \<open>
  The \<open>TypeError\<close> an engine throws when a conversion to a primitive finds no callable
  method. (The wording of the message is the engine's.)
\<close>

definition TypeError :: "string \<Rightarrow> jsval" where
  "TypeError msg = JObj ErrorObject [(''message'', JStr msg), (''name'', JStr ''TypeError'')]"

text \<open>
  An object cannot be converted to a primitive when neither \<open>toString\<close> nor \<open>valueOf\<close>
  gives one. With a prototype, that is the case when its \<open>toString\<close> is overridden by
  something that is not a function and its \<open>valueOf\<close> is not a function of its own
  either (the inherited \<open>valueOf\<close> returns the object itself, which is no primitive).
  Without a prototype, it is the case when neither is a function of its own.
\<close>

fun is_function :: "jsval \<Rightarrow> bool" where
  "is_function (JObj FunctionObject ps) = True"
| "is_function v = False"

definition own_function :: "(string \<times> jsval) list \<Rightarrow> string \<Rightarrow> bool" where
  "own_function ps key = (case map_of ps key of None \<Rightarrow> False | Some f \<Rightarrow> is_function f)"

fun cannot_convert :: "jsval \<Rightarrow> bool" where
  "cannot_convert (JObj NullPrototypeObject ps) =
     (\<not> own_function ps ''toString'' \<and> \<not> own_function ps ''valueOf'')"
| "cannot_convert (JObj k ps) =
     (map_of ps ''toString'' \<noteq> None \<and>
      \<not> own_function ps ''toString'' \<and> \<not> own_function ps ''valueOf'')"
| "cannot_convert v = False"

text \<open>
  The runtime of the closed examples. An object that cannot be converted throws the
  \<open>TypeError\<close>; every other object converts as a plain object with the inherited
  conversion methods does, to the string \<^verbatim>\<open>[object Object]\<close> and to the number \<open>NaN\<close>.
  The closed examples convert no object that has a conversion function of its own, no
  function and no instance of \<open>Error\<close> to a string, print no number and parse no
  string; for those the runtime is fixed arbitrarily.
\<close>

definition example_runtime :: runtime where
  "example_runtime =
     \<lparr> StringToNumber = (\<lambda>s. NaN),
       NumberToString = (\<lambda>x. ''NaN''),
       BigIntToString = (\<lambda>i. ''0''),
       SymbolToNumber = (\<lambda>d. TypeError ''Cannot convert a Symbol value to a number''),
       ObjectToNumber = (\<lambda>v. if cannot_convert v
          then Inl (TypeError ''Cannot convert object to primitive value'') else Inr NaN),
       ObjectToString = (\<lambda>v. if cannot_convert v
          then Inl (TypeError ''Cannot convert object to primitive value'')
          else Inr ''[object Object]'') \<rparr>"

text \<open>\<^verbatim>\<open>Math.random()\<close> returning 0 every time, and returning one half every time.\<close>

definition no_jitter :: "nat \<Rightarrow> real" where
  "no_jitter k = 0"

definition half_jitter :: "nat \<Rightarrow> real" where
  "half_jitter k = 1 / 2"

text \<open>A double just below 1: a value \<^verbatim>\<open>Math.random()\<close> can return.\<close>

definition top_jitter :: real where
  "top_jitter = 1 - 1 / 2 ^ 52"

text \<open>Tasks without state that settle the same way at every call.\<close>

definition always_throws :: "jsval \<Rightarrow> unit task" where
  "always_throws e s = (Threw e, s)"

definition always_returns :: "jsval \<Rightarrow> unit task" where
  "always_returns v s = (Returned v, s)"

text \<open>
  A task that works through a script: call number \<open>k\<close> settles with entry \<open>k\<close> of the
  script, and with \<open>dflt\<close> once the script is used up. Its state counts the calls.
\<close>

definition scripted :: "settled list \<Rightarrow> settled \<Rightarrow> nat task" where
  "scripted script dflt k = (if k < length script then script ! k else dflt, Suc k)"

text \<open>\<^verbatim>\<open>{ status: n }\<close>, a plain object as the client builds them.\<close>

definition status_object :: "real \<Rightarrow> jsval" where
  "status_object n = JObj PlainObject [(''status'', JNum (Fin n))]"

text \<open>\<^verbatim>\<open>Object.create(null)\<close>.\<close>

definition bare_object :: jsval where
  "bare_object = JObj NullPrototypeObject []"

text \<open>\<^verbatim>\<open>{ status: n, toString: null, valueOf: null }\<close>.\<close>

definition unprintable_status_object :: "real \<Rightarrow> jsval" where
  "unprintable_status_object n =
     JObj PlainObject [(''status'', JNum (Fin n)), (''toString'', JNull), (''valueOf'', JNull)]"

text \<open>\<^verbatim>\<open>Object.assign(new Error(msg), { status: v })\<close>.\<close>

definition error_with_status :: "string \<Rightarrow> jsval \<Rightarrow> jsval" where
  "error_with_status msg v =
     JObj ErrorObject [(''message'', JStr msg), (''name'', JStr ''Error''), (''status'', v)]"

definition status_error :: "string \<Rightarrow> real \<Rightarrow> jsval" where
  "status_error msg n = error_with_status msg (JNum (Fin n))"

text \<open>\<^verbatim>\<open>Object.assign(function () {}, { status: n })\<close>.\<close>

definition status_function :: "real \<Rightarrow> jsval" where
  "status_function n = JObj FunctionObject [(''name'', JStr []), (''status'', JNum (Fin n))]"

text \<open>
  An options object as the documentation of the queue describes it, with values that
  differ from the constructor's in every field.
\<close>

definition custom_options :: jsval where
  "custom_options =
     JObj PlainObject
       [(''maxConcurrency'', JNum (Fin 5)),
        (''windowMs'', JNum (Fin 100)),
        (''maxAdmissionsPerWindow'', JNum (Fin 5)),
        (''maxRetries'', JNum (Fin 7)),
        (''baseDelayMs'', JNum (Fin 10))]"

text \<open>The double nearest to one tenth.\<close>

definition tenth :: real where
  "tenth = 3602879701896397 / 2 ^ 55"

text \<open>The double that \<^verbatim>\<open>top_jitter * 0.1\<close> evaluates to.\<close>

definition top_jitter_tenth :: real where
  "top_jitter_tenth = 900719925474099 / 2 ^ 53"

section \<open>The classification as the specification words it\<close>

text \<open>
  "Returns true if and only if the error value has status equal to 429, or status >= 500,
  or code equal to ECONNRESET, ECONNREFUSED or ETIMEDOUT, or name equal to AbortError or
  TimeoutError": the condition on the fields alone, to be compared with \<open>shouldRetry\<close>.
\<close>

definition retryable_by_fields :: "runtime \<Rightarrow> jsval \<Rightarrow> bool" where
  "retryable_by_fields rt e =
     (js_get e ''status'' = JNum (Fin 429)
      \<or> js_ge rt (js_get e ''status'') 500 = Inr True
      \<or> js_get e ''code'' = JStr ''ECONNRESET''
      \<or> js_get e ''code'' = JStr ''ECONNREFUSED''
      \<or> js_get e ''code'' = JStr ''ETIMEDOUT''
      \<or> js_get e ''name'' = JStr ''AbortError''
      \<or> js_get e ''name'' = JStr ''TimeoutError'')"

section \<open>Rounding\<close>

text \<open>
  Facts about rounding to a double: it is monotone, it leaves a double as it is, and its
  value at a point near a double is that double.
\<close>

lemma round_even_of_int: "round_even (of_int n) = n"
  by (simp add: round_even_def)

lemma round_even_floor_le: "\<lfloor>y\<rfloor> \<le> round_even y"
  by (simp add: round_even_def Let_def)

lemma round_even_le_floor_Suc: "round_even y \<le> \<lfloor>y\<rfloor> + 1"
  by (simp add: round_even_def Let_def)

lemma round_even_lower: "of_int n \<le> y \<Longrightarrow> n \<le> round_even y"
proof -
  assume "of_int n \<le> y"
  then have "n \<le> \<lfloor>y\<rfloor>" by (simp add: le_floor_iff)
  with round_even_floor_le [of y] show ?thesis by simp
qed

lemma round_even_upper: "y \<le> of_int n \<Longrightarrow> round_even y \<le> n"
proof (cases "y = of_int n")
  case True
  then show ?thesis by (simp add: round_even_of_int)
next
  case False
  assume "y \<le> of_int n"
  with False have "y < of_int n" by simp
  then have "\<lfloor>y\<rfloor> < n" by (simp add: floor_less_iff)
  with round_even_le_floor_Suc [of y] show ?thesis by simp
qed

lemma round_even_mono: "x \<le> y \<Longrightarrow> round_even x \<le> round_even y"
proof (cases "\<lfloor>x\<rfloor> = \<lfloor>y\<rfloor>")
  case True
  assume "x \<le> y"
  with True show ?thesis by (auto simp add: round_even_def Let_def)
next
  case False
  assume "x \<le> y"
  then have "\<lfloor>x\<rfloor> \<le> \<lfloor>y\<rfloor>" by (rule floor_mono)
  with False have "\<lfloor>x\<rfloor> + 1 \<le> \<lfloor>y\<rfloor>" by simp
  with round_even_le_floor_Suc [of x] round_even_floor_le [of y] show ?thesis by simp
qed

lemma round_even_near: "\<bar>y - of_int n\<bar> < 1 / 2 \<Longrightarrow> round_even y = n"
proof -
  assume near: "\<bar>y - of_int n\<bar> < 1 / 2"
  show ?thesis
  proof (cases "of_int n \<le> y")
    case True
    with near have "\<lfloor>y\<rfloor> = n" by (intro floor_unique) (simp_all add: abs_less_iff)
    with near True show ?thesis by (simp add: round_even_def Let_def abs_less_iff)
  next
    case False
    with near have "\<lfloor>y\<rfloor> = n - 1" by (intro floor_unique) (simp_all add: abs_less_iff)
    with near False show ?thesis by (simp add: round_even_def Let_def abs_less_iff)
  qed
qed

lemma two_powi_pos: "0 < (2::real) powi e"
  by simp

lemma floor_log2_bracket:
  assumes "x \<noteq> 0"
  shows "2 powi \<lfloor>log 2 \<bar>x\<bar>\<rfloor> \<le> \<bar>x\<bar>" and "\<bar>x\<bar> < 2 powi (\<lfloor>log 2 \<bar>x\<bar>\<rfloor> + 1)"
proof -
  from assms have pos: "0 < \<bar>x\<bar>" by simp
  let ?L = "\<lfloor>log 2 \<bar>x\<bar>\<rfloor>"
  have a: "2 powr real_of_int ?L = 2 powi ?L"
    by (rule powr_real_of_int') simp_all
  have b: "2 powr real_of_int (?L + 1) = 2 powi (?L + 1)"
    by (rule powr_real_of_int') simp_all
  from floor_log_eq_powr_iff [OF pos, of 2 ?L]
  have "2 powr real_of_int ?L \<le> \<bar>x\<bar> \<and> \<bar>x\<bar> < 2 powr real_of_int (?L + 1)"
    by (simp del: of_int_add)
  then show "2 powi ?L \<le> \<bar>x\<bar>" and "\<bar>x\<bar> < 2 powi (?L + 1)"
    by (simp_all only: a b)
qed

lemma floor_log2_eq:
  assumes "2 powi E \<le> \<bar>x\<bar>" "\<bar>x\<bar> < 2 powi (E + 1)"
  shows "\<lfloor>log 2 \<bar>x\<bar>\<rfloor> = E"
proof -
  from assms(1) two_powi_pos [of E] have pos: "0 < \<bar>x\<bar>" by linarith
  have a: "2 powr real_of_int E = 2 powi E"
    by (rule powr_real_of_int') simp_all
  have b: "2 powr real_of_int (E + 1) = 2 powi (E + 1)"
    by (rule powr_real_of_int') simp_all
  from assms have "2 powr real_of_int E \<le> \<bar>x\<bar> \<and> \<bar>x\<bar> < 2 powr real_of_int (E + 1)"
    by (simp only: a b)
  with floor_log_eq_powr_iff [OF pos, of 2 E] show ?thesis
    by (simp del: of_int_add)
qed

lemma binade_eq:
  "2 powi E \<le> \<bar>x\<bar> \<Longrightarrow> \<bar>x\<bar> < 2 powi (E + 1) \<Longrightarrow> - 1022 \<le> E \<Longrightarrow> binade x = E"
  by (simp add: binade_def floor_log2_eq)

lemma binade_ge: "- 1022 \<le> binade x"
  by (simp add: binade_def)

lemma binade_upper: "x \<noteq> 0 \<Longrightarrow> \<bar>x\<bar> < 2 powi (binade x + 1)"
proof -
  assume "x \<noteq> 0"
  then have "\<bar>x\<bar> < 2 powi (\<lfloor>log 2 \<bar>x\<bar>\<rfloor> + 1)" by (rule floor_log2_bracket)
  also have "\<dots> \<le> 2 powi (binade x + 1)"
    by (intro power_int_increasing) (simp_all add: binade_def)
  finally show ?thesis .
qed

lemma binade_lower: "x \<noteq> 0 \<Longrightarrow> - 1022 < binade x \<Longrightarrow> 2 powi binade x \<le> \<bar>x\<bar>"
proof -
  assume nz: "x \<noteq> 0" and b: "- 1022 < binade x"
  then have eq: "binade x = \<lfloor>log 2 \<bar>x\<bar>\<rfloor>" by (simp add: binade_def max_def split: if_splits)
  from nz show ?thesis unfolding eq by (rule floor_log2_bracket)
qed

lemma binade_mono: "0 < x \<Longrightarrow> x \<le> y \<Longrightarrow> binade x \<le> binade y"
  by (simp add: binade_def floor_mono max.coboundedI1)

lemma fl_near:
  "x \<noteq> 0 \<Longrightarrow> binade x = E \<Longrightarrow> \<bar>x / 2 powi (E - 52) - of_int n\<bar> < 1 / 2
   \<Longrightarrow> fl x = of_int n * 2 powi (E - 52)"
  by (simp add: fl_def round_even_near)

lemma fl_exact:
  assumes x: "x = of_int m * 2 powi e" and m: "\<bar>m\<bar> < 2 ^ 53" and e: "- 1074 \<le> e"
  shows "fl x = x"
proof (cases "x = 0")
  case True
  then show ?thesis by (simp add: fl_def)
next
  case False
  let ?q = "binade x - 52"
  from m have "\<bar>real_of_int m\<bar> < 2 ^ 53"
    by (metis of_int_abs of_int_less_numeral_power_cancel_iff)
  then have "\<bar>x\<bar> < 2 ^ 53 * 2 powi e"
    by (simp add: x abs_mult)
  also have "\<dots> = 2 powi (e + 53)"
    by (simp add: power_int_add)
  finally have up: "\<bar>x\<bar> < 2 powi (e + 53)" .
  from False have "2 powi \<lfloor>log 2 \<bar>x\<bar>\<rfloor> \<le> \<bar>x\<bar>" by (rule floor_log2_bracket)
  with up have "(2::real) powi \<lfloor>log 2 \<bar>x\<bar>\<rfloor> < 2 powi (e + 53)" by simp
  then have "\<lfloor>log 2 \<bar>x\<bar>\<rfloor> < e + 53"
    by (metis not_le power_int_increasing one_le_numeral)
  with e have q: "?q \<le> e" by (simp add: binade_def)
  then obtain d where d: "e = ?q + int d"
    by (metis zle_iff_zadd)
  have "x / 2 powi ?q = of_int m * 2 powi (e - ?q)"
    by (simp add: x power_int_diff)
  also have "\<dots> = of_int (m * 2 ^ d)"
    using d by (simp add: power_int_def)
  finally have int: "x / 2 powi ?q = of_int (m * 2 ^ d)" .
  have "fl x = of_int (m * 2 ^ d) * 2 powi ?q"
    using False by (simp add: fl_def int round_even_of_int del: of_int_mult of_int_power)
  also have "\<dots> = x / 2 powi ?q * 2 powi ?q" by (simp only: int)
  also have "\<dots> = x" by simp
  finally show ?thesis .
qed

lemma fl_nonneg: "0 \<le> x \<Longrightarrow> 0 \<le> fl x"
proof -
  assume "0 \<le> x"
  then have "0 \<le> x / 2 powi (binade x - 52)" by simp
  then have "0 \<le> round_even (x / 2 powi (binade x - 52))"
    by (intro round_even_lower) simp
  then show ?thesis by (simp add: fl_def)
qed

lemma fl_mono:
  assumes "0 \<le> x" "x \<le> y"
  shows "fl x \<le> fl y"
proof (cases "x = 0")
  case True
  with assms fl_nonneg [of y] show ?thesis by (simp add: fl_def)
next
  case False
  with assms have xpos: "0 < x" and ypos: "0 < y" by simp_all
  let ?bx = "binade x" and ?by = "binade y"
  from binade_mono [OF xpos assms(2)] have le: "?bx \<le> ?by" .
  show ?thesis
  proof (cases "?bx = ?by")
    case True
    from assms(2) have "x / 2 powi (?by - 52) \<le> y / 2 powi (?by - 52)"
      by (simp add: divide_right_mono)
    then have "round_even (x / 2 powi (?by - 52)) \<le> round_even (y / 2 powi (?by - 52))"
      by (rule round_even_mono)
    then have "real_of_int (round_even (x / 2 powi (?by - 52))) * 2 powi (?by - 52)
        \<le> real_of_int (round_even (y / 2 powi (?by - 52))) * 2 powi (?by - 52)"
      by (intro mult_right_mono) simp_all
    with True xpos ypos show ?thesis by (simp add: fl_def)
  next
    case False
    with le have lt: "?bx + 1 \<le> ?by" by simp
    have "x < 2 powi (?bx + 1)" using binade_upper [of x] xpos by simp
    then have "x / 2 powi (?bx - 52) \<le> 2 powi (?bx + 1) / 2 powi (?bx - 52)"
      by (intro divide_right_mono) simp_all
    also have "\<dots> = of_int (2 ^ 53)"
      by (simp add: power_int_diff [symmetric])
    finally have "round_even (x / 2 powi (?bx - 52)) \<le> 2 ^ 53"
      by (rule round_even_upper)
    then have "real_of_int (round_even (x / 2 powi (?bx - 52))) \<le> 2 ^ 53"
      by (metis of_int_le_numeral_power_cancel_iff)
    then have "fl x \<le> 2 ^ 53 * 2 powi (?bx - 52)"
      using xpos by (simp add: fl_def mult_right_mono)
    also have "\<dots> = 2 powi (?bx + 1)"
      by (simp add: power_int_diff field_simps power_int_add)
    also from lt have "\<dots> \<le> 2 powi ?by"
      by (intro power_int_increasing) simp_all
    finally have upper: "fl x \<le> 2 powi ?by" .
    from lt binade_ge [of x] have "- 1022 < ?by" by simp
    then have "2 powi ?by \<le> y" using binade_lower [of y] ypos by simp
    then have "2 powi ?by / 2 powi (?by - 52) \<le> y / 2 powi (?by - 52)"
      by (intro divide_right_mono) simp_all
    moreover have "(2::real) powi ?by / 2 powi (?by - 52) = of_int (2 ^ 52)"
      by (simp add: power_int_diff [symmetric])
    ultimately have "2 ^ 52 \<le> round_even (y / 2 powi (?by - 52))"
      by (intro round_even_lower) simp
    then have "(2::real) ^ 52 \<le> real_of_int (round_even (y / 2 powi (?by - 52)))"
      by (metis numeral_power_le_of_int_cancel_iff)
    then have "2 ^ 52 * 2 powi (?by - 52) \<le> fl y"
      using ypos by (simp add: fl_def mult_right_mono)
    moreover have "(2::real) ^ 52 * 2 powi (?by - 52) = 2 powi ?by"
      by (simp add: power_int_diff)
    ultimately have "2 powi ?by \<le> fl y" by simp
    with upper show ?thesis by simp
  qed
qed

lemma round_double_exact:
  "x = of_int m * 2 powi e \<Longrightarrow> \<bar>m\<bar> < 2 ^ 53 \<Longrightarrow> - 1074 \<le> e \<Longrightarrow> \<bar>x\<bar> < overflow_threshold
   \<Longrightarrow> round_double x = Fin x"
  by (simp add: round_double_def fl_exact abs_less_iff)

lemma overflow_threshold_pos: "0 < overflow_threshold"
  by (simp add: overflow_threshold_def)

lemma round_double_zero: "round_double 0 = Fin 0"
  using overflow_threshold_pos by (simp add: round_double_def fl_def)

lemma round_double_overflow:
  "x = of_int m * 2 powi e \<Longrightarrow> \<bar>m\<bar> < 2 ^ 53 \<Longrightarrow> - 1074 \<le> e \<Longrightarrow> overflow_threshold \<le> x
   \<Longrightarrow> round_double x = PosInf"
  by (simp add: round_double_def fl_exact)

lemma fl_tenth: "fl (1 / 10) = tenth"
proof -
  have b: "binade (1 / 10) = - 4"
    by (rule binade_eq) (simp_all add: power_int_minus)
  have "fl (1 / 10) = of_int 7205759403792794 * 2 powi (- 4 - 52)"
    by (rule fl_near [OF _ b]) (simp_all add: power_int_minus)
  then show ?thesis by (simp add: tenth_def power_int_minus)
qed

lemma round_double_Fin:
  "fl x = y \<Longrightarrow> 0 \<le> y \<Longrightarrow> y < overflow_threshold \<Longrightarrow> round_double x = Fin y"
  using overflow_threshold_pos by (simp add: round_double_def)

lemma round_double_tenth: "round_double (1 / 10) = Fin tenth"
  by (rule round_double_Fin [OF fl_tenth]) (simp_all add: tenth_def overflow_threshold_def)

lemma tenth_exact: "fl tenth = tenth"
  by (rule fl_exact [of _ 3602879701896397 "- 55"]) (simp_all add: tenth_def power_int_minus)

lemma pow2_lt: "k \<le> n \<Longrightarrow> (a::real) < 2 ^ (n - k) \<Longrightarrow> 0 \<le> a \<Longrightarrow> a * 2 ^ k < 2 ^ n"
proof -
  assume "k \<le> n" "a < 2 ^ (n - k)" "0 \<le> a"
  then have "a * 2 ^ k < 2 ^ (n - k) * 2 ^ k" by (intro mult_strict_right_mono) simp_all
  also from \<open>k \<le> n\<close> have "\<dots> = 2 ^ n" by (simp add: power_add [symmetric])
  finally show ?thesis .
qed

lemma scaled_exact:
  assumes m: "\<bar>m\<bar> < 2 ^ 53"
  shows "fl (of_int m * 2 ^ k) = of_int m * 2 ^ k"
  using m by (intro fl_exact [of _ m "int k"]) simp_all

lemma two_powi_nat_shift:
  "(2::real) powi (int k + c) = 2 ^ k * 2 powi c"
  "(2::real) powi (c + int k) = 2 ^ k * 2 powi c"
  by (simp_all add: power_int_add)

lemma fl_tenth_scaled: "fl (tenth * (1000 * 2 ^ k)) = 100 * 2 ^ k"
proof -
  let ?x = "tenth * (1000 * 2 ^ k)"
  have nz: "?x \<noteq> 0" by (simp add: tenth_def)
  have b: "binade ?x = int k + 6"
    by (rule binade_eq) (simp_all add: two_powi_nat_shift tenth_def)
  have s: "(2::real) powi (int k + 6 - 52) = 2 ^ k * 2 powi (- 46)"
    using two_powi_nat_shift(1) [of k "- 46"] by simp
  have q: "?x / 2 powi (int k + 6 - 52) = 7036874417766400 + 25 / 64"
    unfolding s by (simp add: tenth_def power_int_minus)
  have "fl ?x = of_int 7036874417766400 * 2 powi (int k + 6 - 52)"
    using q by (intro fl_near [OF nz b]) simp
  also have "\<dots> = 100 * 2 ^ k"
    unfolding s by (simp add: power_int_minus)
  finally show ?thesis .
qed

lemma pow2_below: "k \<le> 1013 \<Longrightarrow> 0 \<le> a \<Longrightarrow> a < 2048 \<Longrightarrow> a * 2 ^ k < overflow_threshold"
proof -
  assume k: "k \<le> 1013" and a: "0 \<le> a" "a < 2048"
  have "(2::real) ^ 11 \<le> 2 ^ (1024 - k)"
    using k by (intro power_increasing) simp_all
  with a have "a < 2 ^ (1024 - k)" by simp
  with k a show ?thesis unfolding overflow_threshold_def by (intro pow2_lt) simp_all
qed

lemma round_double_between:
  "0 \<le> lo \<Longrightarrow> fl lo = lo \<Longrightarrow> lo \<le> x \<Longrightarrow> x \<le> hi \<Longrightarrow> fl hi = hi \<Longrightarrow> hi < overflow_threshold
   \<Longrightarrow> \<exists>d. round_double x = Fin d \<and> lo \<le> d \<and> d \<le> hi"
proof -
  assume a: "0 \<le> lo" "fl lo = lo" "lo \<le> x" "x \<le> hi" "fl hi = hi" "hi < overflow_threshold"
  from a have "fl lo \<le> fl x" by (intro fl_mono) simp_all
  moreover from a have "fl x \<le> fl hi" by (intro fl_mono) simp_all
  ultimately have "lo \<le> fl x" "fl x \<le> hi" using a by simp_all
  with a overflow_threshold_pos show ?thesis by (simp add: round_double_def)
qed

lemma calculateDelay_closed_interval:
  assumes b: "baseDelay q = Fin 1000" and k: "k \<le> 1013" and r: "0 \<le> r" "r < 1"
  shows "\<exists>d. calculateDelay q r k = Fin d \<and> 1000 * 2 ^ k \<le> d \<and> d \<le> 1100 * 2 ^ k"
proof -
  have p: "Math_pow_2 k = Fin (2 ^ k)"
    unfolding Math_pow_2_def
    using pow2_below [OF k, of 1]
    by (intro round_double_exact [of _ 1 "int k"]) simp_all
  have e: "round_double (1000 * 2 ^ k) = Fin (1000 * 2 ^ k)"
    using pow2_below [OF k, of 1000]
    by (intro round_double_exact [of _ 1000 "int k"]) simp_all
  have flz: "fl 0 = 0" by (simp add: fl_def)
  have tpos: "0 \<le> tenth" "tenth < overflow_threshold"
    by (simp_all add: tenth_def overflow_threshold_def)
  from r tpos have "0 \<le> r * tenth" "r * tenth \<le> tenth"
    by (simp_all add: mult_left_le_one_le)
  with round_double_between [OF _ flz _ _ tenth_exact tpos(2), of "r * tenth"]
  obtain t1 where t1: "round_double (r * tenth) = Fin t1" "0 \<le> t1" "t1 \<le> tenth"
    by auto
  from t1 have "0 \<le> t1 * (1000 * 2 ^ k)" "t1 * (1000 * 2 ^ k) \<le> tenth * (1000 * 2 ^ k)"
    by (simp_all add: mult_right_mono)
  then have "fl 0 \<le> fl (t1 * (1000 * 2 ^ k))" "fl (t1 * (1000 * 2 ^ k)) \<le> fl (tenth * (1000 * 2 ^ k))"
    by (simp_all add: fl_mono)
  then have f2: "0 \<le> fl (t1 * (1000 * 2 ^ k))" "fl (t1 * (1000 * 2 ^ k)) \<le> 100 * 2 ^ k"
    by (simp_all add: flz fl_tenth_scaled)
  have "100 * 2 ^ k < overflow_threshold" using pow2_below [OF k, of 100] by simp
  with f2 overflow_threshold_pos
  obtain t2 where t2: "round_double (t1 * (1000 * 2 ^ k)) = Fin t2" "0 \<le> t2" "t2 \<le> 100 * 2 ^ k"
    by (simp add: round_double_def)
  have lo: "fl (1000 * 2 ^ k) = 1000 * 2 ^ k"
    using scaled_exact [of 1000 k] by simp
  have hi: "fl (1100 * 2 ^ k) = 1100 * 2 ^ k"
    using scaled_exact [of 1100 k] by simp
  have hilt: "1100 * 2 ^ k < overflow_threshold" using pow2_below [OF k, of 1100] by simp
  from t2 have "1000 * 2 ^ k \<le> 1000 * 2 ^ k + t2" "1000 * 2 ^ k + t2 \<le> 1100 * 2 ^ k"
    by simp_all
  with round_double_between [OF _ lo _ _ hi hilt, of "1000 * 2 ^ k + t2"]
  obtain d where d: "round_double (1000 * 2 ^ k + t2) = Fin d" "1000 * 2 ^ k \<le> d" "d \<le> 1100 * 2 ^ k"
    by auto
  have "calculateDelay q r k = Fin d"
    by (simp add: calculateDelay_def Let_def b p e round_double_tenth t1 t2 d)
  with d show ?thesis by simp
qed

lemma top_jitter_double: "round_double top_jitter = Fin top_jitter"
  by (rule round_double_exact [of _ 4503599627370495 "- 52"])
     (simp_all add: top_jitter_def power_int_minus overflow_threshold_def)

lemma fl_scaled_near:
  assumes lo: "2 ^ c \<le> a" and hi: "a < 2 ^ (c + 1)"
    and near: "\<bar>a * 2 ^ 52 / 2 ^ c - of_int n\<bar> < 1 / 2"
  shows "fl (a * 2 ^ k) = of_int n * 2 ^ c / 2 ^ 52 * 2 ^ k"
proof -
  let ?x = "a * 2 ^ k"
  from lo have apos: "0 < a" by (smt (verit) zero_less_power)
  then have nz: "?x \<noteq> 0" by simp
  have e1: "(2::real) powi (int k + int c) = 2 ^ k * 2 ^ c"
    by (simp add: power_int_add)
  have e2: "(2::real) powi (int k + int c + 1) = 2 ^ k * 2 ^ (c + 1)"
    by (simp add: power_int_add)
  have b: "binade ?x = int k + int c"
  proof (rule binade_eq)
    from lo apos show "2 powi (int k + int c) \<le> \<bar>?x\<bar>"
      unfolding e1 by (simp add: abs_mult mult.commute)
    from hi apos show "\<bar>?x\<bar> < 2 powi (int k + int c + 1)"
      unfolding e2 by (simp add: abs_mult mult.commute)
  qed simp
  have s: "(2::real) powi (int k + int c - 52) = 2 ^ k * 2 ^ c / 2 ^ 52"
    by (simp add: power_int_diff power_int_add)
  have q: "?x / 2 powi (int k + int c - 52) = a * 2 ^ 52 / 2 ^ c"
    unfolding s by (simp add: field_simps)
  have "fl ?x = of_int n * 2 powi (int k + int c - 52)"
    using near unfolding q [symmetric] by (intro fl_near [OF nz b])
  then show ?thesis unfolding s by (simp add: field_simps)
qed

lemma fl_top_tenth: "fl (top_jitter * tenth) = top_jitter_tenth"
proof -
  have "fl (top_jitter * tenth * 2 ^ 4 / 2 ^ 4) = top_jitter_tenth"
  proof -
    have b: "binade (top_jitter * tenth) = - 4"
      by (rule binade_eq) (simp_all add: top_jitter_def tenth_def power_int_minus)
    have "fl (top_jitter * tenth) = of_int 7205759403792792 * 2 powi (- 4 - 52)"
      by (rule fl_near [OF _ b]) (simp_all add: top_jitter_def tenth_def power_int_minus)
    then show ?thesis by (simp add: top_jitter_tenth_def power_int_minus)
  qed
  then show ?thesis by simp
qed

lemma calculateDelay_top_jitter:
  assumes b: "baseDelay q = Fin 1000" and k: "k \<le> 1013"
  shows "calculateDelay q top_jitter k = Fin (1100 * 2 ^ k)"
proof -
  have p: "Math_pow_2 k = Fin (2 ^ k)"
    unfolding Math_pow_2_def
    using pow2_below [OF k, of 1]
    by (intro round_double_exact [of _ 1 "int k"]) simp_all
  have e: "round_double (1000 * 2 ^ k) = Fin (1000 * 2 ^ k)"
    using pow2_below [OF k, of 1000]
    by (intro round_double_exact [of _ 1000 "int k"]) simp_all
  have t1: "round_double (top_jitter * tenth) = Fin top_jitter_tenth"
    by (rule round_double_Fin [OF fl_top_tenth]) (simp_all add: top_jitter_tenth_def overflow_threshold_def)
  have "fl (top_jitter_tenth * 1000 * 2 ^ k) = of_int 7036874417766398 * 2 ^ 6 / 2 ^ 52 * 2 ^ k"
    by (rule fl_scaled_near) (simp_all add: top_jitter_tenth_def)
  then have f2: "fl (top_jitter_tenth * (1000 * 2 ^ k)) = (7036874417766398 / 2 ^ 46) * 2 ^ k"
    by (simp add: mult.assoc)
  have "(7036874417766398 / 2 ^ 46) * 2 ^ k < overflow_threshold"
    by (rule pow2_below [OF k]) simp_all
  then have t2: "round_double (top_jitter_tenth * (1000 * 2 ^ k)) = Fin ((7036874417766398 / 2 ^ 46) * 2 ^ k)"
    by (intro round_double_Fin [OF f2]) simp_all
  have "fl ((1000 + 7036874417766398 / 2 ^ 46) * 2 ^ k)
          = of_int 4837851162214400 * 2 ^ 10 / 2 ^ 52 * 2 ^ k"
    by (rule fl_scaled_near) simp_all
  then have f3: "fl (1000 * 2 ^ k + (7036874417766398 / 2 ^ 46) * 2 ^ k) = 1100 * 2 ^ k"
    by (simp add: algebra_simps)
  have "1100 * 2 ^ k < overflow_threshold"
    by (rule pow2_below [OF k]) simp_all
  then have s: "round_double (1000 * 2 ^ k + (7036874417766398 / 2 ^ 46) * 2 ^ k) = Fin (1100 * 2 ^ k)"
    by (intro round_double_Fin [OF f3]) simp_all
  show ?thesis
    unfolding calculateDelay_def Let_def b p
    by (simp only: num_mul.simps num_add.simps e round_double_tenth t1 t2 s)
qed

lemma calculateDelay_overflow:
  assumes b: "baseDelay q = Fin 1000"
  shows "calculateDelay q (1 / 2) 1014 = PosInf"
proof -
  define k :: nat where "k = 1013"
  have k: "k \<le> 1013" by (simp add: k_def)
  have k1: "(1014::nat) = Suc k" by (simp add: k_def)
  have big: "overflow_threshold = 2048 * 2 ^ k"
  proof -
    have "overflow_threshold = 2 ^ (11 + k)" by (simp add: k_def overflow_threshold_def)
    also have "\<dots> = 2048 * 2 ^ k" by (simp only: power_add) simp
    finally show ?thesis .
  qed
  have p: "Math_pow_2 (Suc k) = Fin (2 * 2 ^ k)"
  proof -
    have "round_double (2 * 2 ^ k) = Fin (2 * 2 ^ k)"
      by (rule round_double_exact [of _ 2 "int k"]) (simp_all add: big)
    then show ?thesis by (simp add: Math_pow_2_def)
  qed
  have e: "round_double (1000 * (2 * 2 ^ k)) = Fin (2000 * 2 ^ k)"
  proof -
    have "round_double (2000 * 2 ^ k) = Fin (2000 * 2 ^ k)"
      by (rule round_double_exact [of _ 2000 "int k"]) (simp_all add: big)
    then show ?thesis by (simp add: mult.assoc [symmetric])
  qed
  have t1: "round_double (1 / 2 * tenth) = Fin (tenth / 2)"
  proof -
    have "round_double (tenth / 2) = Fin (tenth / 2)"
      by (rule round_double_exact [of _ 3602879701896397 "- 56"])
         (simp_all add: tenth_def power_int_minus overflow_threshold_def)
    then show ?thesis by simp
  qed
  have f2: "fl (tenth / 2 * (2000 * 2 ^ k)) = 100 * 2 ^ k"
    using fl_tenth_scaled [of k] by (simp add: field_simps)
  have t2: "round_double (tenth / 2 * (2000 * 2 ^ k)) = Fin (100 * 2 ^ k)"
    by (rule round_double_Fin [OF f2]) (simp_all add: big)
  have "round_double (2100 * 2 ^ k) = PosInf"
    by (rule round_double_overflow [of _ 2100 "int k"]) (simp_all add: big)
  then have s: "round_double (2000 * 2 ^ k + 100 * 2 ^ k) = PosInf"
    by simp
  show ?thesis
    unfolding calculateDelay_def Let_def b k1 p
    by (simp only: num_mul.simps num_add.simps e round_double_tenth t1 t2 s)
qed

lemma calculateDelay_nan:
  assumes b: "baseDelay q = Fin 1000"
  shows "calculateDelay q 0 1015 = NaN"
proof -
  define k :: nat where "k = 1013"
  have k2: "(1015::nat) = Suc (Suc k)" by (simp add: k_def)
  have big: "overflow_threshold = 2048 * 2 ^ k"
  proof -
    have "overflow_threshold = 2 ^ (11 + k)" by (simp add: k_def overflow_threshold_def)
    also have "\<dots> = 2048 * 2 ^ k" by (simp only: power_add) simp
    finally show ?thesis .
  qed
  have p: "Math_pow_2 (Suc (Suc k)) = Fin (4 * 2 ^ k)"
  proof -
    have "round_double (4 * 2 ^ k) = Fin (4 * 2 ^ k)"
      by (rule round_double_exact [of _ 4 "int k"]) (simp_all add: big)
    then show ?thesis by (simp add: Math_pow_2_def)
  qed
  have e: "round_double (1000 * (4 * 2 ^ k)) = PosInf"
  proof -
    have "round_double (4000 * 2 ^ k) = PosInf"
      by (rule round_double_overflow [of _ 4000 "int k"]) (simp_all add: big)
    then show ?thesis by (simp add: mult.assoc [symmetric])
  qed
  have t1: "round_double (0 * tenth) = Fin 0"
    by (simp add: round_double_zero)
  show ?thesis
    unfolding calculateDelay_def Let_def b k2 p
    by (simp only: num_mul.simps num_add.simps e round_double_tenth t1) simp
qed

lemma upper_end_in_doubles:
  "k \<le> 1013 \<Longrightarrow> num_mul (Fin (1000 * 2 ^ k)) (round_double (11 / 10)) = Fin (1100 * 2 ^ k)"
proof -
  assume k: "k \<le> 1013"
  have b: "binade (11 / 10) = 0"
    by (rule binade_eq) simp_all
  have "fl (11 / 10) = of_int 4953959590107546 * 2 powi (0 - 52)"
    by (rule fl_near [OF _ b]) (simp_all add: power_int_minus)
  then have f: "fl (11 / 10) = 4953959590107546 / 2 ^ 52"
    by (simp add: power_int_minus)
  have c: "round_double (11 / 10) = Fin (4953959590107546 / 2 ^ 52)"
    by (rule round_double_Fin [OF f]) (simp_all add: overflow_threshold_def)
  have "fl (1000 * (4953959590107546 / 2 ^ 52) * 2 ^ k)
          = of_int 4837851162214400 * 2 ^ 10 / 2 ^ 52 * 2 ^ k"
    by (rule fl_scaled_near) simp_all
  then have f2: "fl (1000 * 2 ^ k * (4953959590107546 / 2 ^ 52)) = 1100 * 2 ^ k"
    by (simp add: algebra_simps)
  have "1100 * 2 ^ k < overflow_threshold"
    by (rule pow2_below [OF k]) simp_all
  then have "round_double (1000 * 2 ^ k * (4953959590107546 / 2 ^ 52)) = Fin (1100 * 2 ^ k)"
    by (intro round_double_Fin [OF f2]) simp_all
  then show ?thesis by (simp only: c num_mul.simps)
qed

section \<open>The retry loop, step by step\<close>


lemma calculateDelay_half_jitter:
  assumes b: "baseDelay q = Fin 1000" and k: "k \<le> 1013"
  shows "calculateDelay q (1 / 2) k = Fin (1050 * 2 ^ k)"
proof -
  have p: "Math_pow_2 k = Fin (2 ^ k)"
    unfolding Math_pow_2_def
    using pow2_below [OF k, of 1]
    by (intro round_double_exact [of _ 1 "int k"]) simp_all
  have e: "round_double (1000 * 2 ^ k) = Fin (1000 * 2 ^ k)"
    using pow2_below [OF k, of 1000]
    by (intro round_double_exact [of _ 1000 "int k"]) simp_all
  have t1: "round_double (1 / 2 * tenth) = Fin (tenth / 2)"
  proof -
    have "round_double (tenth / 2) = Fin (tenth / 2)"
      by (rule round_double_exact [of _ 3602879701896397 "- 56"])
         (simp_all add: tenth_def power_int_minus overflow_threshold_def)
    then show ?thesis by simp
  qed
  have "fl (tenth / 2 * 1000 * 2 ^ k) = of_int 7036874417766400 * 2 ^ 5 / 2 ^ 52 * 2 ^ k"
    by (rule fl_scaled_near) (simp_all add: tenth_def)
  then have f2: "fl (tenth / 2 * (1000 * 2 ^ k)) = 50 * 2 ^ k"
    by (simp add: mult.assoc)
  have "50 * 2 ^ k < overflow_threshold"
    by (rule pow2_below [OF k]) simp_all
  then have t2: "round_double (tenth / 2 * (1000 * 2 ^ k)) = Fin (50 * 2 ^ k)"
    by (intro round_double_Fin [OF f2]) simp_all
  have "round_double (1050 * 2 ^ k) = Fin (1050 * 2 ^ k)"
    using pow2_below [OF k, of 1050]
    by (intro round_double_exact [of _ 1050 "int k"]) simp_all
  then have s: "round_double (1000 * 2 ^ k + 50 * 2 ^ k) = Fin (1050 * 2 ^ k)"
    by simp
  show ?thesis
    unfolding calculateDelay_def Let_def b p
    by (simp only: num_mul.simps num_add.simps e round_double_tenth t1 t2 s)
qed

declare retry_loop.simps [simp del]

lemma calls_append: "calls (xs @ ys) = calls xs + calls ys"
  by (induction xs rule: calls.induct) simp_all

lemma sleeps_append: "sleeps (xs @ ys) = sleeps xs @ sleeps ys"
  by (induction xs rule: sleeps.induct) simp_all

lemma lastError_value_Error: "instanceof_Error e \<Longrightarrow> lastError_value rt e = Inr e"
  by (simp add: lastError_value_def)

lemma lastError_value_wrapped:
  "\<not> instanceof_Error e \<Longrightarrow> js_String rt e = Inr msg \<Longrightarrow> lastError_value rt e = Inr (new_Error msg)"
  by (simp add: lastError_value_def)

lemma lastError_value_throws:
  "\<not> instanceof_Error e \<Longrightarrow> js_String rt e = Inl t \<Longrightarrow> lastError_value rt e = Inl t"
  by (simp add: lastError_value_def)


lemma catch_block_Backoff_iff:
  "catch_block rt q r k e = Backoff le d \<longleftrightarrow>
     lastError_value rt e = Inr le \<and> k \<noteq> maxRetries q \<and> shouldRetry rt e = Inr True \<and>
     d = calculateDelay q r k"
  by (auto simp add: catch_block_def split: sum.splits)

lemma retry_loop_last:
  "a \<le> maxRetries q \<Longrightarrow> retry_loop rt q rnd fn a le s tr = (out, s', tr') \<Longrightarrow>
   \<exists>n. 1 \<le> n \<and> a + n \<le> maxRetries q + 1 \<and> calls tr' = calls tr + n \<and> s' = state_after fn s n \<and>
       (case attempt_result fn s (n - 1) of
          Returned v \<Rightarrow> out = Resolved v
        | Threw e \<Rightarrow> \<exists>t. out = Rejected t \<and>
            catch_block rt q (rnd (a + (n - 1))) (a + (n - 1)) e = Rethrow t)"
proof (induction rt q rnd fn a le s tr rule: retry_loop.induct)
  case (1 rt q rnd fn attempt lastError s tr)
  obtain res s1 where fs: "fn s = (res, s1)" by (cases "fn s")
  show ?case
  proof (cases res)
    case (Returned v)
    with fs "1.prems" have "out = Resolved v" "s' = s1" "tr' = tr @ [Call]"
      by (simp_all add: retry_loop.simps [of rt q rnd fn attempt])
    with fs Returned "1.prems"(1) show ?thesis
      by (intro exI [of _ 1]) (simp add: calls_append attempt_result_def)
  next
    case (Threw e)
    show ?thesis
    proof (cases "catch_block rt q (rnd attempt) attempt e")
      case (Rethrow t)
      with fs Threw "1.prems" have "out = Rejected t" "s' = s1" "tr' = tr @ [Call]"
        by (simp_all add: retry_loop.simps [of rt q rnd fn attempt])
      with fs Threw Rethrow "1.prems"(1) show ?thesis
        by (intro exI [of _ 1]) (simp add: calls_append attempt_result_def)
    next
      case (Backoff le' d)
      with fs Threw "1.prems"
      have rec: "retry_loop rt q rnd fn (attempt + 1) le' s1 (tr @ [Call, Sleep d]) = (out, s', tr')"
        by (simp add: retry_loop.simps [of rt q rnd fn attempt])
      from Backoff have "attempt \<noteq> maxRetries q"
        by (simp add: catch_block_Backoff_iff)
      with "1.prems"(1) have le: "attempt + 1 \<le> maxRetries q" by simp
      from "1.IH" [OF "1.prems"(1) fs [symmetric] Threw Backoff le rec]
      obtain n where n: "1 \<le> n" "attempt + 1 + n \<le> maxRetries q + 1"
        "calls tr' = calls (tr @ [Call, Sleep d]) + n" "s' = state_after fn s1 n"
        "(case attempt_result fn s1 (n - 1) of
            Returned v \<Rightarrow> out = Resolved v
          | Threw e \<Rightarrow> \<exists>t. out = Rejected t \<and>
              catch_block rt q (rnd (attempt + 1 + (n - 1))) (attempt + 1 + (n - 1)) e = Rethrow t)"
        by auto
      from n(1) have ar: "attempt_result fn s1 (n - 1) = attempt_result fn s (Suc n - 1)"
        using fs by (cases n) (simp_all add: attempt_result_def)
      from n(1) have ix: "attempt + 1 + (n - 1) = attempt + (Suc n - 1)" by simp
      from n(5) have last: "(case attempt_result fn s (Suc n - 1) of
            Returned v \<Rightarrow> out = Resolved v
          | Threw e \<Rightarrow> \<exists>t. out = Rejected t \<and>
              catch_block rt q (rnd (attempt + (Suc n - 1))) (attempt + (Suc n - 1)) e = Rethrow t)"
        unfolding ar ix .
      have "1 \<le> Suc n" "attempt + Suc n \<le> maxRetries q + 1" "calls tr' = calls tr + Suc n"
        "s' = state_after fn s (Suc n)"
        using n fs by (simp_all add: calls_append)
      with last show ?thesis by blast
    qed
  qed
qed







lemma retry_loop_last0:
  "retry_loop rt q rnd fn 0 le s tr = (out, s', tr') \<Longrightarrow>
   \<exists>n. 1 \<le> n \<and> n \<le> maxRetries q + 1 \<and> calls tr' = calls tr + n \<and> s' = state_after fn s n \<and>
       (case attempt_result fn s (n - 1) of
          Returned v \<Rightarrow> out = Resolved v
        | Threw e \<Rightarrow> \<exists>t. out = Rejected t \<and>
            catch_block rt q (rnd (n - 1)) (n - 1) e = Rethrow t)"
  using retry_loop_last [of 0 q rt rnd fn le s tr out s' tr']
  by (simp cong: settled.case_cong)


lemma retry_loop_first_success:
  "fn s = (Returned v, s') \<Longrightarrow> retry_loop rt q rnd fn 0 le s tr = (Resolved v, s', tr @ [Call])"
  by (simp add: retry_loop.simps [of rt q rnd fn 0])

lemma retry_loop_rethrow:
  "fn s = (Threw e, s') \<Longrightarrow> catch_block rt q (rnd a) a e = Rethrow t \<Longrightarrow> a \<le> maxRetries q \<Longrightarrow>
   retry_loop rt q rnd fn a le s tr = (Rejected t, s', tr @ [Call])"
  by (simp add: retry_loop.simps [of rt q rnd fn a])

lemma catch_block_not_retryable:
  "shouldRetry rt e = Inr False \<Longrightarrow>
   catch_block rt q r a e =
     Rethrow (if instanceof_Error e then e
              else case js_String rt e of Inl t \<Rightarrow> t | Inr msg \<Rightarrow> new_Error msg)"
  by (simp add: catch_block_def lastError_value_def split: sum.splits)

lemma shouldRetry_primitive: "\<not> is_Object v \<Longrightarrow> shouldRetry rt v = Inr False"
  by (cases v) (simp_all add: shouldRetry_def)

lemma js_String_primitive: "\<not> is_Object v \<Longrightarrow> \<exists>msg. js_String rt v = Inr msg"
proof (cases v)
  case (JNum n)
  then show ?thesis by (cases n) simp_all
qed simp_all



lemma final_state_after_calls:
  "state_of (add rt q rnd fn s) = state_after fn s (calls (trace_of (add rt q rnd fn s)))"
proof -
  obtain out s' tr' where run: "retry_loop rt q rnd fn 0 JNull s [] = (out, s', tr')"
    by (cases "retry_loop rt q rnd fn 0 JNull s []")
  from retry_loop_last0 [OF run] obtain n where "calls tr' = n" "s' = state_after fn s n"
    by auto
  with run show ?thesis
    by (simp add: add_def PQueue_add_def executeWithRetry_def state_of_def trace_of_def)
qed

lemma new_Error_differs: "\<not> instanceof_Error e \<Longrightarrow> new_Error msg \<noteq> e"
  by (auto simp add: new_Error_def)

lemmas run_defs = add_def PQueue_add_def executeWithRetry_def retry_loop.simps catch_block_def
  lastError_value_def shouldRetry_def js_ge_def RetryQueue_constructor_def new_Error_def
  example_runtime_def always_throws_def always_returns_def scripted_def
  status_object_def status_error_def error_with_status_def unprintable_status_object_def
  status_function_def no_jitter_def half_jitter_def TypeError_def bare_object_def
  own_function_def

section \<open>The claims\<close>

subsection \<open>C1: a task that keeps failing with retryable errors\<close>


text \<open>
  The count fails as well when \<^verbatim>\<open>String(error)\<close> throws: the retryable object
  \<^verbatim>\<open>{ status: 503, toString: null, valueOf: null }\<close> cannot be converted, the
  \<open>TypeError\<close> leaves the catch block, and the promise rejects with it after one call.
\<close>

lemma unprintable_retryable_object_fails_once:
  "shouldRetry example_runtime (unprintable_status_object 503) = Inr True \<and>
   add example_runtime (RetryQueue_constructor []) no_jitter
       (always_throws (unprintable_status_object 503)) ()
     = (Rejected (TypeError ''Cannot convert object to primitive value''), (), [Call])"
  by (simp add: run_defs)



subsection \<open>C2: the classification\<close>



text \<open>
  An \<open>Error\<close> whose status is an object without conversion methods, and one whose status
  is a symbol: the comparison throws a \<open>TypeError\<close>, and so does \<open>shouldRetry\<close>.
\<close>

lemma shouldRetry_throws_on_unconvertible_status:
  "shouldRetry example_runtime
     (error_with_status ''odd'' (JObj PlainObject [(''toString'', JNull), (''valueOf'', JNull)]))
     = Inl (TypeError ''Cannot convert object to primitive value'') \<and>
   shouldRetry example_runtime (error_with_status ''odd'' (JSymbol ''s''))
     = Inl (TypeError ''Cannot convert a Symbol value to a number'')"
  by (simp add: shouldRetry_def error_with_status_def js_ge_def example_runtime_def
      own_function_def)

text \<open>
  Functions are the only values on which the guard matters: on every other value the
  fields alone decide, whenever the comparison returns.
\<close>

lemma shouldRetry_fields_unless_function:
  "js_typeof e \<noteq> ''function'' \<Longrightarrow> \<exists>b. js_ge rt (js_get e ''status'') 500 = Inr b \<Longrightarrow>
   shouldRetry rt e = Inr (retryable_by_fields rt e)"
proof (cases e)
  case (JObj k ps)
  assume "js_typeof e \<noteq> ''function''" "\<exists>b. js_ge rt (js_get e ''status'') 500 = Inr b"
  with JObj have "js_typeof e = ''object''" by (cases k) simp_all
  with JObj \<open>\<exists>b. js_ge rt (js_get e ''status'') 500 = Inr b\<close> show ?thesis
    by (auto simp add: shouldRetry_def retryable_by_fields_def Let_def)
qed (simp_all add: shouldRetry_def retryable_by_fields_def js_ge_def)

subsection \<open>C3: a first attempt that fails with a non-retryable error\<close>




text \<open>
  The object \<^verbatim>\<open>{ status: 400, toString: null, valueOf: null }\<close>: one call, and the
  rejection is the \<open>TypeError\<close> of the string conversion.
\<close>

lemma unprintable_non_retryable_object_rejected_with_TypeError:
  "shouldRetry example_runtime (unprintable_status_object 400) = Inr False \<and>
   add example_runtime (RetryQueue_constructor []) no_jitter
       (always_throws (unprintable_status_object 400)) ()
     = (Rejected (TypeError ''Cannot convert object to primitive value''), (), [Call])"
  by (simp add: run_defs)

subsection \<open>C4: the backoff delay\<close>

text \<open>
  Claim C4 says that for every attempt index \<open>k\<close> and every jitter outcome \<open>r\<close> in
  \<open>[0, 1)\<close> the delay lies in the half-open interval from \<open>baseDelay * 2^k\<close> to
  \<open>baseDelay * 2^k * 1.1\<close>. The code computes in doubles, and rounding reaches the
  excluded upper end: with the jitter outcome \<open>1 - 2^-52\<close>, a double in \<open>[0, 1)\<close>, the
  delay of attempt 0 is exactly 1100 and that of attempt 2 exactly 4400. (The upper end
  itself is 1100 whether it is computed exactly or in doubles.)
\<close>

theorem top_jitter_reaches_upper_end:
  "0 \<le> top_jitter \<and> top_jitter < 1 \<and> round_double top_jitter = Fin top_jitter \<and>
   calculateDelay (RetryQueue_constructor []) top_jitter 0 = Fin 1100 \<and>
   \<not> (1100 < 1000 * 2 ^ 0 * (1.1::real)) \<and>
   num_mul (Fin (1000 * 2 ^ 0)) (round_double (11 / 10)) = Fin 1100 \<and>
   calculateDelay (RetryQueue_constructor []) top_jitter 2 = Fin 4400 \<and>
   \<not> (4400 < 1000 * 2 ^ 2 * (1.1::real))"
proof -
  have b: "baseDelay (RetryQueue_constructor []) = Fin 1000"
    by (simp add: RetryQueue_constructor_def)
  have "calculateDelay (RetryQueue_constructor []) top_jitter 0 = Fin 1100"
    using calculateDelay_top_jitter [OF b, of 0] by simp
  moreover have "calculateDelay (RetryQueue_constructor []) top_jitter 2 = Fin 4400"
    using calculateDelay_top_jitter [OF b, of 2] by simp
  moreover have "num_mul (Fin (1000 * 2 ^ 0)) (round_double (11 / 10)) = Fin 1100"
    using upper_end_in_doubles [of 0] by simp
  moreover have "0 \<le> top_jitter" "top_jitter < 1" by (simp_all add: top_jitter_def)
  ultimately show ?thesis by (simp add: top_jitter_double)
qed

text \<open>
  Claim C4, amended. The delay is
  \<open>baseDelay * 2^k + r * 0.1 * (baseDelay * 2^k)\<close> evaluated in double arithmetic. At the
  base delay 1000 that the constructor sets, for every attempt index \<open>k \<le> 1013\<close> (the
  loop only reaches 0, 1 and 2) and every jitter outcome \<open>r\<close> in \<open>[0, 1)\<close>, it is a
  finite number in the closed interval from \<open>1000 * 2^k\<close> to \<open>1000 * 2^k * 1.1\<close>.
\<close>

theorem calculateDelay_interval:
  "calculateDelay q r k =
     num_add (num_mul (baseDelay q) (Math_pow_2 k))
       (num_mul (num_mul (Fin r) (round_double (1 / 10))) (num_mul (baseDelay q) (Math_pow_2 k))) \<and>
   (baseDelay q = Fin 1000 \<and> k \<le> 1013 \<and> 0 \<le> r \<and> r < 1 \<longrightarrow>
      (\<exists>d. calculateDelay q r k = Fin d \<and> 1000 * 2 ^ k \<le> d \<and> d \<le> 1000 * 2 ^ k * 1.1))"
proof -
  have "\<exists>d. calculateDelay q r k = Fin d \<and> 1000 * 2 ^ k \<le> d \<and> d \<le> 1000 * 2 ^ k * 1.1"
    if "baseDelay q = Fin 1000" "k \<le> 1013" "0 \<le> r" "r < 1"
    using calculateDelay_closed_interval [OF that] by simp
  then show ?thesis by (simp add: calculateDelay_def Let_def)
qed

theorem calculateDelay_interval_witness:
  "baseDelay (RetryQueue_constructor []) = Fin 1000 \<and>
   (\<exists>d. calculateDelay (RetryQueue_constructor []) (1 / 2) 2 = Fin d \<and> 4000 \<le> d \<and> d \<le> 4400)"
proof -
  have b: "baseDelay (RetryQueue_constructor []) = Fin 1000"
    by (simp add: RetryQueue_constructor_def)
  from calculateDelay_interval [of "RetryQueue_constructor []" "1 / 2" 2, THEN conjunct2] b
  show ?thesis by simp
qed

subsection \<open>C5: what the caller sees as the rejection reason\<close>




text \<open>
  An \<open>Error\<close> whose status is a symbol: the classification throws on the first attempt,
  and its \<open>TypeError\<close> is the rejection reason.
\<close>

lemma classification_TypeError_is_the_rejection:
  "instanceof_Error (error_with_status ''odd'' (JSymbol ''s'')) \<and>
   add example_runtime (RetryQueue_constructor []) no_jitter
       (always_throws (error_with_status ''odd'' (JSymbol ''s''))) ()
     = (Rejected (TypeError ''Cannot convert a Symbol value to a number''), (), [Call])"
  by (simp add: run_defs)

text \<open>
  \<^verbatim>\<open>throw Object.create(null)\<close>: the string conversion throws, and its \<open>TypeError\<close> is the
  rejection reason, after one call.
\<close>

lemma bare_object_rejected_with_TypeError:
  "shouldRetry example_runtime bare_object = Inr False \<and>
   js_String example_runtime bare_object
     = Inl (TypeError ''Cannot convert object to primitive value'') \<and>
   add example_runtime (RetryQueue_constructor []) no_jitter (always_throws bare_object) ()
     = (Rejected (TypeError ''Cannot convert object to primitive value''), (), [Call])"
  by (simp add: run_defs)

subsection \<open>C6: the constructor\<close>

text \<open>
  Claim C6 says that the constructor accepts a configuration with the options
  \<open>maxConcurrency\<close>, \<open>windowMs\<close>, \<open>maxAdmissionsPerWindow\<close>, \<open>maxRetries\<close> and
  \<open>baseDelayMs\<close> and falls back on 20, 1000, 20, 3 and 1000. The constructor has no
  parameter: an options object passed to it changes nothing.
\<close>

theorem constructor_options_not_applied:
  "js_get custom_options ''maxRetries'' = JNum (Fin 7) \<and>
   maxRetries (RetryQueue_constructor [custom_options]) \<noteq> 7 \<and>
   js_get custom_options ''baseDelayMs'' = JNum (Fin 10) \<and>
   baseDelay (RetryQueue_constructor [custom_options]) \<noteq> Fin 10 \<and>
   js_get custom_options ''maxConcurrency'' = JNum (Fin 5) \<and>
   concurrency (queue (RetryQueue_constructor [custom_options])) \<noteq> 5"
  by (simp add: RetryQueue_constructor_def custom_options_def)

text \<open>
  Claim C6, amended. The constructor takes no configuration: whatever arguments it is
  given, it builds the queue it builds without arguments, with concurrency 20, interval
  1000, interval cap 20, \<open>maxRetries\<close> 3 and \<open>baseDelay\<close> 1000.
\<close>

theorem constructor_ignores_arguments:
  "RetryQueue_constructor args = RetryQueue_constructor [] \<and>
   concurrency (queue (RetryQueue_constructor args)) = 20 \<and>
   interval (queue (RetryQueue_constructor args)) = 1000 \<and>
   intervalCap (queue (RetryQueue_constructor args)) = 20 \<and>
   maxRetries (RetryQueue_constructor args) = 3 \<and>
   baseDelay (RetryQueue_constructor args) = Fin 1000"
  by (simp add: RetryQueue_constructor_def)

subsection \<open>C7: a first attempt that succeeds\<close>

text \<open>
  Claim C7. If the first call of the task returns a value, the promise of \<open>add\<close>
  resolves with exactly that value, the task has been called once, and \<open>sleep\<close> is never
  called.
\<close>

theorem first_attempt_success_resolves_without_sleep:
  "fn s = (Returned v, s') \<Longrightarrow>
   add rt q rnd fn s = (Resolved v, s', [Call]) \<and> sleeps (trace_of (add rt q rnd fn s)) = []"
  by (simp add: add_def PQueue_add_def executeWithRetry_def retry_loop_first_success trace_of_def)

theorem first_attempt_success_witness:
  "add example_runtime (RetryQueue_constructor []) half_jitter (always_returns (JStr ''ok'')) ()
     = (Resolved (JStr ''ok''), (), [Call])"
proof -
  have "always_returns (JStr ''ok'') () = (Returned (JStr ''ok''), ())"
    by (simp add: always_returns_def)
  from first_attempt_success_resolves_without_sleep [where fn = "always_returns (JStr ''ok'')" and s = "()", OF this]
  show ?thesis by simp
qed

subsection \<open>C9: delays grow from one attempt to the next\<close>

text \<open>
  Claim C9 says that for every attempt index \<open>k\<close> the delay after attempt \<open>k\<close> is at most
  the delay after attempt \<open>k + 1\<close>, whatever the jitter. In doubles this fails once the
  numbers overflow: the delay after attempt 1014 with jitter one half is \<open>Infinity\<close>, and
  the delay after attempt 1015 with jitter 0 is \<open>NaN\<close>, which is not greater than or equal
  to anything.
\<close>

theorem large_attempt_delays_not_ordered:
  "calculateDelay (RetryQueue_constructor []) (1 / 2) 1014 = PosInf \<and>
   calculateDelay (RetryQueue_constructor []) 0 1015 = NaN \<and>
   \<not> num_ge (calculateDelay (RetryQueue_constructor []) 0 1015)
            (calculateDelay (RetryQueue_constructor []) (1 / 2) 1014)"
proof -
  have b: "baseDelay (RetryQueue_constructor []) = Fin 1000"
    by (simp add: RetryQueue_constructor_def)
  show ?thesis
    by (simp add: calculateDelay_overflow [OF b] calculateDelay_nan [OF b])
qed

text \<open>
  Claim C9, amended. At the base delay 1000 that the constructor sets, for every attempt
  index \<open>k \<le> 1012\<close> (the loop only reaches 0, 1 and 2) and all jitter outcomes in
  \<open>[0, 1)\<close>, the delay after attempt \<open>k\<close> is at most \<open>1000 * 2^k * 1.1\<close>, which is below
  \<open>1000 * 2^(k+1)\<close>, the least possible delay after attempt \<open>k + 1\<close>; so the delay after
  attempt \<open>k\<close> is less than the delay after attempt \<open>k + 1\<close>, draw by draw and hence also
  in expectation.
\<close>

theorem calculateDelay_increasing:
  "baseDelay q = Fin 1000 \<Longrightarrow> k \<le> 1012 \<Longrightarrow> 0 \<le> r \<Longrightarrow> r < 1 \<Longrightarrow> 0 \<le> r' \<Longrightarrow> r' < 1 \<Longrightarrow>
   \<exists>d d'. calculateDelay q r k = Fin d \<and> calculateDelay q r' (k + 1) = Fin d' \<and>
     d \<le> 1000 * 2 ^ k * 1.1 \<and> 1000 * 2 ^ k * 1.1 < (1000::real) * 2 ^ (k + 1) \<and>
     1000 * 2 ^ (k + 1) \<le> d' \<and> d < d' \<and>
     num_ge (calculateDelay q r' (k + 1)) (calculateDelay q r k)"
proof -
  assume b: "baseDelay q = Fin 1000" and k: "k \<le> 1012"
    and r: "0 \<le> r" "r < 1" and r': "0 \<le> r'" "r' < 1"
  from k have k0: "k \<le> 1013" and k1: "k + 1 \<le> 1013" by simp_all
  from calculateDelay_closed_interval [OF b k0 r]
  obtain d where d: "calculateDelay q r k = Fin d" "d \<le> 1100 * 2 ^ k" by auto
  from calculateDelay_closed_interval [OF b k1 r']
  obtain d' where d': "calculateDelay q r' (k + 1) = Fin d'" "1000 * 2 ^ (k + 1) \<le> d'" by auto
  have gap: "1000 * 2 ^ k * 1.1 < (1000::real) * 2 ^ (k + 1)" by simp
  from d(2) have up: "d \<le> 1000 * 2 ^ k * 1.1" by simp
  from up gap d'(2) have lt: "d < d'" by linarith
  then have ge: "num_ge (Fin d') (Fin d)" by simp
  from d(1) d'(1) up gap d'(2) lt ge show ?thesis
    by (intro exI [of _ d] exI [of _ d']) (simp only: simp_thms)
qed

text \<open>
  With a large jitter on the earlier attempt and none on the later one: at most 2200 ms
  after attempt 1 against at least 4000 ms after attempt 2.
\<close>

theorem calculateDelay_increasing_witness:
  "\<exists>d d'. calculateDelay (RetryQueue_constructor []) (99 / 100) 1 = Fin d \<and>
     calculateDelay (RetryQueue_constructor []) 0 2 = Fin d' \<and>
     d \<le> 2200 \<and> 4000 \<le> d' \<and> d < d'"
proof -
  let ?q = "RetryQueue_constructor []"
  have b: "baseDelay ?q = Fin 1000"
    by (simp add: RetryQueue_constructor_def)
  have s: "(1::nat) + 1 = 2" by simp
  have "\<exists>d d'. calculateDelay ?q (99 / 100) 1 = Fin d \<and> calculateDelay ?q 0 (1 + 1) = Fin d' \<and>
     d \<le> 1000 * 2 ^ 1 * 1.1 \<and> 1000 * 2 ^ 1 * 1.1 < (1000::real) * 2 ^ (1 + 1) \<and>
     1000 * 2 ^ (1 + 1) \<le> d' \<and> d < d' \<and>
     num_ge (calculateDelay ?q 0 (1 + 1)) (calculateDelay ?q (99 / 100) 1)"
    by (rule calculateDelay_increasing [OF b]) simp_all
  then obtain d d' where f: "calculateDelay ?q (99 / 100) 1 = Fin d"
    "calculateDelay ?q 0 (1 + 1) = Fin d'" "d \<le> 1000 * 2 ^ 1 * 1.1"
    "1000 * 2 ^ (1 + 1) \<le> d'" "d < d'"
    by blast
  from f(2) have f2: "calculateDelay ?q 0 2 = Fin d'" by (simp only: s)
  from f(3) have f3: "d \<le> 2200" by simp
  from f(4) have f4: "4000 \<le> d'" by simp
  from f(1) f2 f3 f4 f(5) show ?thesis by blast
qed

subsection \<open>C10: thrown primitives\<close>

text \<open>
  Claim C10. For every thrown value that is not an object (a string, a number, a
  boolean, \<open>null\<close> or \<open>undefined\<close>, and likewise a BigInt or a symbol), \<open>shouldRetry\<close>
  returns false, whatever the value says; the string conversion of such a value returns;
  a task whose first call throws such a value is called exactly once, no sleep happens,
  and the promise rejects (with the \<open>Error\<close> wrapped around the value).
\<close>

theorem primitive_throw_fails_once:
  "\<not> is_Object v \<Longrightarrow>
   shouldRetry rt v = Inr False \<and>
   (fn s = (Threw v, s') \<longrightarrow>
      (\<exists>msg. js_String rt v = Inr msg \<and>
         add rt q rnd fn s = (Rejected (new_Error msg), s', [Call])) \<and>
      calls (trace_of (add rt q rnd fn s)) = 1 \<and>
      sleeps (trace_of (add rt q rnd fn s)) = [])"
proof -
  assume prim: "\<not> is_Object v"
  then have nr: "shouldRetry rt v = Inr False" by (rule shouldRetry_primitive)
  from prim have ni: "\<not> instanceof_Error v" by (cases v) simp_all
  from prim obtain msg where msg: "js_String rt v = Inr msg"
    using js_String_primitive by blast
  show ?thesis
    using nr ni msg
    by (simp add: add_def PQueue_add_def executeWithRetry_def retry_loop_rethrow
        catch_block_not_retryable trace_of_def)
qed

text \<open>The string \<^verbatim>\<open>'ETIMEDOUT'\<close>, thrown as a string, is not retried.\<close>

theorem primitive_throw_fails_once_witness:
  "\<not> is_Object (JStr ''ETIMEDOUT'') \<and>
   shouldRetry example_runtime (JStr ''ETIMEDOUT'') = Inr False \<and>
   add example_runtime (RetryQueue_constructor []) half_jitter (always_throws (JStr ''ETIMEDOUT'')) ()
     = (Rejected (new_Error ''ETIMEDOUT''), (), [Call])"
proof -
  have p: "\<not> is_Object (JStr ''ETIMEDOUT'')" by simp
  have t: "always_throws (JStr ''ETIMEDOUT'') () = (Threw (JStr ''ETIMEDOUT''), ())"
    by (simp add: always_throws_def)
  from primitive_throw_fails_once [OF p, of example_runtime "always_throws (JStr ''ETIMEDOUT'')" "()" "()"] t
  show ?thesis by simp
qed

text \<open>Neither is the number 429, thrown as a number.\<close>

lemma thrown_number_429_not_retried: "shouldRetry rt (JNum (Fin 429)) = Inr False"
  by (simp add: shouldRetry_def)

subsection \<open>A run that recovers\<close>

text \<open>
  Scenario A of the specification: status 429 twice, then success. Three calls, two
  sleeps, resolved with the value of the third call.
\<close>

lemma scenario_A:
  "add example_runtime (RetryQueue_constructor []) half_jitter
      (scripted [Threw (status_object 429), Threw (status_object 429)] (Returned (JStr ''ok''))) 0
     = (Resolved (JStr ''ok''), 3, [Call, Sleep (Fin 1050), Call, Sleep (Fin 2100), Call])"
  by (simp add: run_defs calculateDelay_half_jitter)

end
